theory Spec2Isabelle
  imports Complex_Main "HOL-Library.Sublist" "HOL-Library.AList"
begin

section \<open>Data model (types/api.ts, here src/unnamed/part_002)\<close>

text \<open>
  The browser's \<^verbatim>\<open>File\<close> object as the upload page sees it: the declared name, the
  declared MIME type (\<^verbatim>\<open>file.type\<close>), the size and the bytes of the blob itself.
  Strings are byte lists; \<^verbatim>\<open>type\<close> and \<^verbatim>\<open>size\<close> are renamed because the names are
  taken in HOL.
\<close>

record File =
  name :: string
  ftype :: string
  fsize :: nat
  blob :: string

text \<open>\<^verbatim>\<open>status: 'shortlisted' | 'rejected'\<close> of \<^verbatim>\<open>CandidateResult\<close>.\<close>

datatype status = Shortlisted | Rejected

text \<open>
  \<^verbatim>\<open>interface CandidateResult\<close>; the optional fields are options, \<^verbatim>\<open>id\<close> is
  \<open>id'\<close>. The score is a JavaScript number; every score the code under study
  produces is an integer, and so is every score the backend contract allows (0 to 100).
\<close>

record CandidateResult =
  id' :: string
  fileName :: string
  candidate :: string
  email :: string
  phone :: "string option"
  score :: int
  status :: status
  summary :: string
  experience :: string
  skills :: "string list"
  education :: "string option"
  location :: "string option"
  extractedText :: "string option"

text \<open>\<^verbatim>\<open>interface RejectionEmail\<close>; \<^verbatim>\<open>candidate\<close> and \<^verbatim>\<open>email\<close> are primed here.\<close>

record RejectionEmail =
  candidateId :: string
  candidate' :: string
  email' :: string
  subject :: string
  content :: string

section \<open>JavaScript numbers of the results page\<close>

text \<open>
  The average on the results page is computed with JavaScript's \<^verbatim>\<open>/\<close> and
  \<^verbatim>\<open>Math.round\<close>. Division by zero does not raise: it gives \<^verbatim>\<open>NaN\<close> or an
  infinity, so these are values of the model. Finite values are exact rationals.
\<close>

datatype js_number = Num rat | NaN | PosInfinity | NegInfinity

text \<open>\<^verbatim>\<open>a / b\<close> for finite operands (the divisor here is an array length, never \<^verbatim>\<open>-0\<close>).\<close>

definition js_div :: "rat \<Rightarrow> rat \<Rightarrow> js_number" where
  "js_div a b =
     (if b = 0 then (if a = 0 then NaN else if 0 < a then PosInfinity else NegInfinity)
      else Num (a / b))"

text \<open>\<^verbatim>\<open>Math.round\<close>: the nearest integer, halves rounded towards positive infinity.\<close>

fun Math_round :: "js_number \<Rightarrow> js_number" where
  "Math_round (Num x) = Num (of_int \<lfloor>x + 1 / 2\<rfloor>)"
| "Math_round NaN = NaN"
| "Math_round PosInfinity = PosInfinity"
| "Math_round NegInfinity = NegInfinity"

section \<open>Results page (\<^verbatim>\<open>ResultsPage\<close>, second half of src/components/Dashboard.tsx)\<close>

text \<open>\<^verbatim>\<open>processedResumes.filter(resume => resume.status === 'shortlisted')\<close>\<close>

definition shortlistedCandidates :: "CandidateResult list \<Rightarrow> CandidateResult list" where
  "shortlistedCandidates processedResumes =
     filter (\<lambda>resume. status resume = Shortlisted) processedResumes"

text \<open>\<^verbatim>\<open>processedResumes.filter(resume => resume.status === 'rejected')\<close>\<close>

definition rejectedCandidates :: "CandidateResult list \<Rightarrow> CandidateResult list" where
  "rejectedCandidates processedResumes =
     filter (\<lambda>resume. status resume = Rejected) processedResumes"

text \<open>\<^verbatim>\<open>processedResumes.reduce((sum, r) => sum + r.score, 0)\<close>\<close>

definition scoreSum :: "CandidateResult list \<Rightarrow> int" where
  "scoreSum processedResumes = foldl (\<lambda>sum r. sum + score r) 0 processedResumes"

text \<open>
  The "Avg Score" card:
  \<^verbatim>\<open>Math.round(processedResumes.reduce(...) / processedResumes.length)\<close>
\<close>

definition avgScore :: "CandidateResult list \<Rightarrow> js_number" where
  "avgScore processedResumes =
     Math_round (js_div (of_int (scoreSum processedResumes))
                        (of_nat (length processedResumes)))"

text \<open>
  Not part of the code: the exact arithmetic mean of the scores, which the specification
  compares the shown average with.
\<close>

definition meanScore :: "CandidateResult list \<Rightarrow> rat" where
  "meanScore rs = of_int (sum_list (map score rs)) / of_nat (length rs)"

section \<open>JavaScript string helpers\<close>

text \<open>
  A number in a template literal (\<^verbatim>\<open>`resume_${index}`\<close>) is printed in decimal.
\<close>

fun show_nat :: "nat \<Rightarrow> string" where
  "show_nat n =
     (if n < 10 then [char_of (48 + n)]
      else show_nat (n div 10) @ [char_of (48 + n mod 10)])"

declare show_nat.simps [simp del]

definition show_int :: "int \<Rightarrow> string" where
  "show_int i = (if i < 0 then CHR ''-'' # show_nat (nat (- i)) else show_nat (nat i))"

text \<open>
  \<^verbatim>\<open>s.split(sep)\<close> for a one-character separator: the pieces between the
  separators, empty pieces kept; the empty string gives one empty piece.
\<close>

fun js_split :: "char \<Rightarrow> string \<Rightarrow> string list" where
  "js_split sep [] = [[]]"
| "js_split sep (c # cs) =
     (if c = sep then [] # js_split sep cs
      else (case js_split sep cs of
              w # ws \<Rightarrow> (c # w) # ws
            | [] \<Rightarrow> [[c]]))"

text \<open>\<^verbatim>\<open>pieces.join(sep)\<close>\<close>

fun js_join :: "string \<Rightarrow> string list \<Rightarrow> string" where
  "js_join sep [] = []"
| "js_join sep [w] = w"
| "js_join sep (w # v # ws) = w @ sep @ js_join sep (v # ws)"

text \<open>
  \<^verbatim>\<open>xs.slice(0, e)\<close>: the first \<open>e\<close> elements; a negative end counts from the end
  of the array.
\<close>

definition slice0 :: "int \<Rightarrow> 'a list \<Rightarrow> 'a list" where
  "slice0 e xs = (if e < 0 then take (nat (int (length xs) + e)) xs else take (nat e) xs)"

text \<open>
  \<^verbatim>\<open>s.toLowerCase()\<close> on the ASCII letters; other bytes are left as they are.
\<close>

definition toLowerCase :: "string \<Rightarrow> string" where
  "toLowerCase s =
     map (\<lambda>c. if (65 :: nat) \<le> of_char c \<and> of_char c \<le> (90 :: nat)
              then char_of (of_char c + (32 :: nat)) else c) s"

text \<open>\<^verbatim>\<open>s.endsWith(t)\<close>\<close>

definition endsWith :: "string \<Rightarrow> string \<Rightarrow> bool" where
  "endsWith s t = (length t \<le> length s \<and> drop (length s - length t) s = t)"

section \<open>Demo fallback of the processing page (src/components/ProcessingPage.tsx)\<close>

text \<open>The two tables of \<^verbatim>\<open>simulateMockProcessing\<close>.\<close>

definition candidates :: "string list" where
  "candidates =
     [''Sarah Johnson'', ''Michael Chen'', ''Emily Rodriguez'', ''David Kumar'',
      ''Jessica Williams'', ''Alex Thompson'', ''Maria Garcia'', ''James Wilson'',
      ''Lauren Davis'', ''Robert Martinez'']"

definition emails :: "string list" where
  "emails =
     [''sarah.j@email.com'', ''michael.c@email.com'', ''emily.r@email.com'',
      ''david.k@email.com'', ''jessica.w@email.com'', ''alex.t@email.com'',
      ''maria.g@email.com'', ''james.w@email.com'', ''lauren.d@email.com'',
      ''robert.m@email.com'']"

text \<open>
  The callback of \<^verbatim>\<open>uploadedFiles.map((file, index) => ...)\<close>. \<^verbatim>\<open>Math.random()\<close>
  is the only input from outside: \<open>random\<close> is the sequence of values it returns during
  the run and \<open>k\<close> counts the calls made so far, so the callback returns the record
  and the new count. The calls happen in the order of the object literal: the score,
  the years of the summary (only when the score is at least 80), the experience, the
  number of skills.
\<close>

definition mockResume ::
  "(nat \<Rightarrow> rat) \<Rightarrow> nat \<Rightarrow> nat \<Rightarrow> File \<Rightarrow> CandidateResult \<times> nat" where
  "mockResume random k index file =
     (let score = \<lfloor>random k * 40\<rfloor> + 60;
          k1 = k + 1;
          k2 = (if score \<ge> 80 then k1 + 1 else k1);
          k3 = k2 + 1
      in (\<lparr> id' = ''resume_'' @ show_nat index,
            fileName = name file,
            candidate = candidates ! (index mod length candidates),
            email = emails ! (index mod length emails),
            phone = None,
            score = score,
            status = (if score \<ge> 80 then Shortlisted else Rejected),
            summary =
              (if score \<ge> 80
               then ''Excellent match with '' @ show_int (\<lfloor>random k1 * 3\<rfloor> + 5)
                    @ ''+ years of relevant experience. Strong technical skills and cultural fit.''
               else ''Good candidate but missing key requirements. Limited experience in core technologies mentioned in job description.''),
            experience = show_int (\<lfloor>random k2 * 8\<rfloor> + 2) @ '' years'',
            skills =
              slice0 (\<lfloor>random k3 * 4\<rfloor> + 3)
                [''JavaScript'', ''React'', ''Node.js'', ''Python'', ''SQL'', ''TypeScript'',
                 ''AWS'', ''Docker''],
            education = None,
            location = None,
            extractedText = None \<rparr>,
          k3 + 1))"

text \<open>The \<^verbatim>\<open>map\<close> itself, from a given index and call count on.\<close>

fun mockResumes_from ::
  "(nat \<Rightarrow> rat) \<Rightarrow> nat \<Rightarrow> nat \<Rightarrow> File list \<Rightarrow> CandidateResult list" where
  "mockResumes_from random k index [] = []"
| "mockResumes_from random k index (file # files) =
     (case mockResume random k index file of
        (resume, k') \<Rightarrow> resume # mockResumes_from random k' (Suc index) files)"

definition mockResumes :: "(nat \<Rightarrow> rat) \<Rightarrow> File list \<Rightarrow> CandidateResult list" where
  "mockResumes random uploadedFiles = mockResumes_from random 0 0 uploadedFiles"

text \<open>\<^verbatim>\<open>jobDescription.split(' ').slice(0, 3).join(' ')\<close>, used in subject and body.\<close>

definition positionExcerpt :: "string \<Rightarrow> string" where
  "positionExcerpt jobDescription =
     js_join '' '' (slice0 3 (js_split CHR '' '' jobDescription))"

text \<open>The callback of \<^verbatim>\<open>rejectedCandidates.map(resume => ({...}))\<close>.\<close>

definition mockRejectionEmail :: "string \<Rightarrow> CandidateResult \<Rightarrow> RejectionEmail" where
  "mockRejectionEmail jobDescription resume =
     \<lparr> candidateId = id' resume,
       candidate' = candidate resume,
       email' = email resume,
       subject = ''Thank you for your application - '' @ positionExcerpt jobDescription
                 @ '' Position'',
       content =
         ''Dear '' @ candidate resume @ '',\<newline>\<newline>Thank you for taking the time to apply for the ''
         @ positionExcerpt jobDescription
         @ '' position at our company. We appreciate your interest in joining our team.\<newline>\<newline>After careful review of your application and qualifications, we have decided to move forward with other candidates whose experience more closely aligns with our current requirements.\<newline>\<newline>We were impressed by your background and encourage you to apply for future opportunities that may be a better fit for your skills and experience.\<newline>\<newline>Thank you again for your interest in our company.\<newline>\<newline>Best regards,\<newline>HR Team'' \<rparr>"

text \<open>
  \<^verbatim>\<open>mockResumes.filter(resume => resume.status === 'rejected').map(...)\<close>
\<close>

definition mockRejectionEmails :: "string \<Rightarrow> CandidateResult list \<Rightarrow> RejectionEmail list" where
  "mockRejectionEmails jobDescription resumes =
     map (mockRejectionEmail jobDescription) (rejectedCandidates resumes)"

section \<open>Shared state (context/ResumeContext.tsx, here src/unnamed/part_001)\<close>

text \<open>
  The state behind \<^verbatim>\<open>ResumeContextType\<close>: one field per \<^verbatim>\<open>useState\<close> of
  \<^verbatim>\<open>ResumeProvider\<close>. The setters of the interface are record updates.
\<close>

record ResumeContext =
  jobDescription :: string
  uploadedFiles :: "File list"
  processedResumes :: "CandidateResult list"
  rejectionEmails :: "RejectionEmail list"
  processing :: bool
  currentJobId :: "string option"

text \<open>The initial values of the \<^verbatim>\<open>useState\<close> calls.\<close>

definition initialContext :: ResumeContext where
  "initialContext =
     \<lparr> jobDescription = [], uploadedFiles = [], processedResumes = [],
       rejectionEmails = [], processing = False, currentJobId = None \<rparr>"

text \<open>
  The object that \<^verbatim>\<open>ResumeProvider\<close> hands to every page, by the names of its
  properties (\<^verbatim>\<open>const value = { jobDescription, setJobDescription, ... }\<close>, the
  members of \<^verbatim>\<open>ResumeContextType\<close>). A page that destructures any other name from
  \<^verbatim>\<open>useResumeContext()\<close> gets \<^verbatim>\<open>undefined\<close>.
\<close>

definition ResumeContext_value_keys :: "string list" where
  "ResumeContext_value_keys =
     [''jobDescription'', ''setJobDescription'', ''uploadedFiles'', ''setUploadedFiles'',
      ''processedResumes'', ''setProcessedResumes'', ''rejectionEmails'',
      ''setRejectionEmails'', ''processing'', ''setProcessing'', ''currentJobId'',
      ''setCurrentJobId'', ''resetProcess'']"

section \<open>Upload page (src/components/UploadPage.tsx)\<close>

text \<open>
  \<^verbatim>\<open>const newFiles = Array.from(files).filter(file => file.type === 'application/pdf'
  || file.name.toLowerCase().endsWith('.doc') || file.name.toLowerCase().endsWith('.docx'))\<close>
\<close>

definition newFiles :: "File list \<Rightarrow> File list" where
  "newFiles fl =
     filter (\<lambda>file. ftype file = ''application/pdf''
                    \<or> endsWith (toLowerCase (name file)) ''.doc''
                    \<or> endsWith (toLowerCase (name file)) ''.docx'') fl"

text \<open>
  \<^verbatim>\<open>handleFileUpload(files: FileList | null)\<close>: nothing happens for \<^verbatim>\<open>null\<close>;
  otherwise the files that pass the filter are appended to the uploaded ones.
\<close>

definition handleFileUpload ::
  "File list option \<Rightarrow> 'a ResumeContext_scheme \<Rightarrow> 'a ResumeContext_scheme" where
  "handleFileUpload fileList ctx =
     (case fileList of
        None \<Rightarrow> ctx
      | Some fl \<Rightarrow> ctx\<lparr>uploadedFiles := uploadedFiles ctx @ newFiles fl\<rparr>)"

section \<open>The request to the backend (src/services/api.ts)\<close>

text \<open>\<^verbatim>\<open>interface ProcessResumeRequest\<close>; its \<^verbatim>\<open>jobDescription\<close> is primed.\<close>

record ProcessResumeRequest =
  jobDescription' :: string
  files :: "File list"

text \<open>
  \<^verbatim>\<open>interface ProcessResumeResponse\<close>; \<^verbatim>\<open>candidates\<close> and
  \<^verbatim>\<open>rejectionEmails\<close> are primed.
\<close>

record ProcessResumeResponse =
  jobId :: string
  candidates' :: "CandidateResult list"
  rejectionEmails' :: "RejectionEmail list"
  totalProcessed :: int
  shortlistedCount :: int
  rejectedCount :: int
  averageScore :: rat
  processingTime :: rat

text \<open>
  A \<^verbatim>\<open>FormData\<close> object is the list of its entries in the order they were appended;
  an entry's value is a string or a file.
\<close>

datatype FormDataEntryValue = StringValue string | FileValue File

type_synonym FormData = "(string \<times> FormDataEntryValue) list"

definition formData_append :: "FormData \<Rightarrow> string \<Rightarrow> FormDataEntryValue \<Rightarrow> FormData" where
  "formData_append formData key v = formData @ [(key, v)]"

text \<open>
  What the code hands to axios for a call: the path, the headers it sets itself and the
  form. What axios and the browser add on their own (the base URL, \<^verbatim>\<open>Accept\<close>, the
  multipart boundary) is not written in the repository and is not part of the model.
\<close>

record HttpRequest =
  url :: string
  headers :: "(string \<times> string) list"
  body :: FormData

text \<open>
  The browser state that the API client reads and writes: the two cookies, and the
  address assigned to \<^verbatim>\<open>window.location.href\<close> (\<open>None\<close> as long as the code has
  assigned none). Assigning it starts a page load that replaces the document.
\<close>

record Browser =
  auth_token :: "string option"
  refresh_token :: "string option"
  location_href :: "string option"

text \<open>
  What a failed call throws, as far as the code reads it: \<^verbatim>\<open>error.response?.status\<close>
  (\<open>None\<close> when there was no response at all: network error, timeout) and
  \<^verbatim>\<open>error.message\<close>.
\<close>

record AxiosError =
  response_status :: "nat option"
  message :: string

text \<open>
  The request interceptor:
  \<^verbatim>\<open>const token = Cookies.get('auth_token');
  if (token) { config.headers.Authorization = `Bearer ${token}`; }\<close>
  An empty cookie value is falsy.
\<close>

definition request_interceptor :: "Browser \<Rightarrow> HttpRequest \<Rightarrow> HttpRequest" where
  "request_interceptor browser config =
     (case auth_token browser of
        None \<Rightarrow> config
      | Some token \<Rightarrow>
          if token = [] then config
          else config\<lparr>headers :=
                 AList.update ''Authorization'' (''Bearer '' @ token) (headers config)\<rparr>)"

text \<open>
  The response interceptor, on a rejected call:
  \<^verbatim>\<open>if (error.response?.status === 401) { Cookies.remove('auth_token');
  Cookies.remove('refresh_token'); window.location.href = '/signin'; }
  return Promise.reject(error);\<close>
\<close>

definition response_interceptor :: "AxiosError \<Rightarrow> Browser \<Rightarrow> Browser" where
  "response_interceptor error browser =
     (if response_status error = Some 401
      then browser\<lparr> auth_token := None, refresh_token := None,
                    location_href := Some ''/signin'' \<rparr>
      else browser)"

text \<open>
  \<^verbatim>\<open>api.post\<close>: the request goes through the request interceptor to the server, and
  a rejection goes through the response interceptor before the caller sees it. The
  network and the backend are outside the repository, so they are the parameter
  \<open>server\<close>, which answers a request with the response data (\<open>Inr\<close>) or makes the
  call fail (\<open>Inl\<close>).
\<close>

definition api_post ::
  "(HttpRequest \<Rightarrow> AxiosError + 'r) \<Rightarrow> HttpRequest \<Rightarrow> Browser
     \<Rightarrow> (AxiosError + 'r) \<times> Browser" where
  "api_post server config browser =
     (case server (request_interceptor browser config) of
        Inr response \<Rightarrow> (Inr response, browser)
      | Inl error \<Rightarrow> (Inl error, response_interceptor error browser))"

text \<open>
  \<^verbatim>\<open>resumeAPI.processResumes\<close>:
  \<^verbatim>\<open>formData.append('jobDescription', data.jobDescription);
  data.files.forEach((file, index) => { formData.append(`resumes`, file); });
  api.post('/resumes/process', formData,
    { headers: { 'Content-Type': 'multipart/form-data' } })\<close>
  The header of the call replaces the \<^verbatim>\<open>application/json\<close> default of the axios
  instance. The function returns what the call returns or throws, and the browser state
  after the call.
\<close>

definition processResumes ::
  "(HttpRequest \<Rightarrow> AxiosError + ProcessResumeResponse) \<Rightarrow> ProcessResumeRequest \<Rightarrow> Browser
     \<Rightarrow> (AxiosError + ProcessResumeResponse) \<times> Browser" where
  "processResumes server data browser =
     (let formData = [];
          formData = formData_append formData ''jobDescription''
                       (StringValue (jobDescription' data));
          formData = foldl (\<lambda>fd file. formData_append fd ''resumes'' (FileValue file))
                       formData (files data)
      in api_post server
           \<lparr> url = ''/resumes/process'',
             headers = [(''Content-Type'', ''multipart/form-data'')],
             body = formData \<rparr>
           browser)"

section \<open>The processing run (src/components/ProcessingPage.tsx)\<close>

text \<open>
  \<^verbatim>\<open>simulateMockProcessing\<close>: the context after the three setters, and the route
  passed to \<^verbatim>\<open>navigate\<close>. \<open>now\<close> is \<^verbatim>\<open>Date.now()\<close>.
\<close>

definition simulateMockProcessing ::
  "(nat \<Rightarrow> rat) \<Rightarrow> nat \<Rightarrow> 'a ResumeContext_scheme \<Rightarrow> 'a ResumeContext_scheme \<times> string" where
  "simulateMockProcessing random now ctx =
     (let resumes = mockResumes random (uploadedFiles ctx);
          mails = mockRejectionEmails (jobDescription ctx) resumes
      in (ctx\<lparr> currentJobId := Some (''mock_job_'' @ show_nat now),
               processedResumes := resumes,
               rejectionEmails := mails \<rparr>,
          ''/results''))"

text \<open>
  \<^verbatim>\<open>processResumesWithAPI\<close>: \<^verbatim>\<open>setProcessing(true)\<close>, the call in the
  \<^verbatim>\<open>try\<close>, the \<^verbatim>\<open>catch\<close> that logs the error and awaits the mock, and
  \<^verbatim>\<open>setProcessing(false)\<close> in the \<^verbatim>\<open>finally\<close>. (The value of
  \<^verbatim>\<open>handleApiError(error)\<close> is computed in the \<^verbatim>\<open>catch\<close> and never used.)

  The mock starts with a timer of two seconds. When the response interceptor has
  assigned \<^verbatim>\<open>window.location.href\<close>, a page load is under way that replaces the
  document and with it the timer and the state of the context; whether that happens
  before the timer fires is decided by the browser and the network, not by the code,
  so it is the input \<open>documentReplaced\<close>. The result is the browser state and, unless
  the document was replaced, the context and the route passed to \<^verbatim>\<open>navigate\<close>.
\<close>

definition processResumesWithAPI ::
  "(HttpRequest \<Rightarrow> AxiosError + ProcessResumeResponse) \<Rightarrow> (nat \<Rightarrow> rat) \<Rightarrow> nat \<Rightarrow> bool
     \<Rightarrow> Browser \<Rightarrow> 'a ResumeContext_scheme
     \<Rightarrow> Browser \<times> ('a ResumeContext_scheme \<times> string) option" where
  "processResumesWithAPI server random now documentReplaced browser ctx =
     (let ctx1 = ctx\<lparr>processing := True\<rparr>
      in case processResumes server
                \<lparr> jobDescription' = jobDescription ctx, files = uploadedFiles ctx \<rparr> browser of
           (Inr response, browser') \<Rightarrow>
             (browser',
              Some (ctx1\<lparr> currentJobId := Some (jobId response),
                          processedResumes := candidates' response,
                          rejectionEmails := rejectionEmails' response,
                          processing := False \<rparr>,
                    ''/results''))
         | (Inl error, browser') \<Rightarrow>
             if location_href browser' \<noteq> None \<and> documentReplaced then (browser', None)
             else (case simulateMockProcessing random now ctx1 of
                     (ctx2, route) \<Rightarrow> (browser', Some (ctx2\<lparr>processing := False\<rparr>, route))))"

section \<open>Counts on the results page\<close>

lemma scoreSum_foldl:
  "foldl (\<lambda>sum r. sum + score r) a rs = a + sum_list (map score rs)"
  by (induction rs arbitrary: a) simp_all

lemma scoreSum_sum_list: "scoreSum rs = sum_list (map score rs)"
  by (simp add: scoreSum_def scoreSum_foldl)

text \<open>
  C3. The header of the results page reports \<^verbatim>\<open>processedResumes.length\<close> as the
  number processed and the lengths of the two filtered lists as the shortlisted and
  rejected counts. The total is the sum of the two counts, every record is in exactly
  one of the two lists, and the two lists together hold exactly the records of the run.
\<close>

theorem counts_partition:
  "length rs =
     length (shortlistedCandidates rs)
       + length (rejectedCandidates rs)
   \<and> ((r \<in> set (shortlistedCandidates rs)) \<noteq> (r \<in> set (rejectedCandidates rs)))
       = (r \<in> set rs)
   \<and> set (shortlistedCandidates rs)
       \<inter> set (rejectedCandidates rs) = {}"
proof -
  have rej: "(\<lambda>resume. status resume = Rejected) = (\<lambda>resume. \<not> status resume = Shortlisted)"
    by (rule ext) (case_tac "status resume"; simp)
  have len: "length rs =
     length (shortlistedCandidates rs)
       + length (rejectedCandidates rs)"
    unfolding shortlistedCandidates_def rejectedCandidates_def rej
    by (simp add: sum_length_filter_compl)
  have mem: "((r \<in> set (shortlistedCandidates rs)) \<noteq> (r \<in> set (rejectedCandidates rs)))
       = (r \<in> set rs)"
    unfolding shortlistedCandidates_def rejectedCandidates_def
    by (cases "status r") auto
  have disj: "set (shortlistedCandidates rs)
       \<inter> set (rejectedCandidates rs) = {}"
    unfolding shortlistedCandidates_def rejectedCandidates_def by auto
  from len mem disj show ?thesis by blast
qed

section \<open>The average score on the results page\<close>

lemma avgScore_nonempty:
  assumes "rs \<noteq> []"
  shows "avgScore rs = Num (of_int \<lfloor>meanScore rs + 1 / 2\<rfloor>)"
proof -
  from assms have "(of_nat (length rs) :: rat) \<noteq> 0" by simp
  then show ?thesis
    by (simp add: avgScore_def js_div_def meanScore_def scoreSum_sum_list)
qed

lemma round_half_up_close: "\<bar>of_int \<lfloor>x + 1 / 2\<rfloor> - x\<bar> \<le> (1 / 2 :: rat)"
  by linarith

text \<open>
  C10. For the empty list of candidate records the average card divides 0 by 0 with no
  guard: the value is \<^verbatim>\<open>NaN\<close>, which \<^verbatim>\<open>Math.round\<close> passes on. It is neither
  0 nor an error, and the empty list is the only list for which this happens.
\<close>

theorem avgScore_NaN_iff_empty:
  "avgScore [] = NaN \<and> (avgScore rs = NaN) = (rs = [])"
proof -
  have e: "avgScore [] = NaN"
    by (simp add: avgScore_def js_div_def scoreSum_def)
  have "avgScore rs \<noteq> NaN" if "rs \<noteq> []"
    using avgScore_nonempty [OF that] by simp
  with e show ?thesis by auto
qed

text \<open>
  C4, as the specification states it: the reported average is within \<open>10\<^sup>-\<^sup>6\<close> of the
  exact mean. The card shows \<^verbatim>\<open>Math.round\<close> of the mean, so for the scores 60 and
  61 it shows 61 while the mean is 60.5: the difference is one half.
\<close>

theorem avgScore_tolerance_counterexample:
  "avgScore
     [\<lparr> id' = ''resume_0'', fileName = ''a.pdf'', candidate = ''Sarah Johnson'',
         email = ''sarah.j@email.com'', phone = None, score = 60, status = Rejected,
         summary = ''Good candidate'', experience = ''2 years'', skills = [''SQL''],
         education = None, location = None, extractedText = None \<rparr>,
      \<lparr> id' = ''resume_1'', fileName = ''b.pdf'', candidate = ''Michael Chen'',
         email = ''michael.c@email.com'', phone = None, score = 61, status = Rejected,
         summary = ''Good candidate'', experience = ''2 years'', skills = [''SQL''],
         education = None, location = None, extractedText = None \<rparr>] = Num 61
   \<and> meanScore
     [\<lparr> id' = ''resume_0'', fileName = ''a.pdf'', candidate = ''Sarah Johnson'',
         email = ''sarah.j@email.com'', phone = None, score = 60, status = Rejected,
         summary = ''Good candidate'', experience = ''2 years'', skills = [''SQL''],
         education = None, location = None, extractedText = None \<rparr>,
      \<lparr> id' = ''resume_1'', fileName = ''b.pdf'', candidate = ''Michael Chen'',
         email = ''michael.c@email.com'', phone = None, score = 61, status = Rejected,
         summary = ''Good candidate'', experience = ''2 years'', skills = [''SQL''],
         education = None, location = None, extractedText = None \<rparr>] = 121 / 2
   \<and> \<not> \<bar>(61 :: rat) - 121 / 2\<bar> < 1 / 1000000"
proof -
  have a: "avgScore
     [\<lparr> id' = ''resume_0'', fileName = ''a.pdf'', candidate = ''Sarah Johnson'',
         email = ''sarah.j@email.com'', phone = None, score = 60, status = Rejected,
         summary = ''Good candidate'', experience = ''2 years'', skills = [''SQL''],
         education = None, location = None, extractedText = None \<rparr>,
      \<lparr> id' = ''resume_1'', fileName = ''b.pdf'', candidate = ''Michael Chen'',
         email = ''michael.c@email.com'', phone = None, score = 61, status = Rejected,
         summary = ''Good candidate'', experience = ''2 years'', skills = [''SQL''],
         education = None, location = None, extractedText = None \<rparr>] = Num 61"
    by code_simp
  have m: "meanScore
     [\<lparr> id' = ''resume_0'', fileName = ''a.pdf'', candidate = ''Sarah Johnson'',
         email = ''sarah.j@email.com'', phone = None, score = 60, status = Rejected,
         summary = ''Good candidate'', experience = ''2 years'', skills = [''SQL''],
         education = None, location = None, extractedText = None \<rparr>,
      \<lparr> id' = ''resume_1'', fileName = ''b.pdf'', candidate = ''Michael Chen'',
         email = ''michael.c@email.com'', phone = None, score = 61, status = Rejected,
         summary = ''Good candidate'', experience = ''2 years'', skills = [''SQL''],
         education = None, location = None, extractedText = None \<rparr>] = 121 / 2"
    by (simp add: meanScore_def)
  have d: "\<not> \<bar>(61 :: rat) - 121 / 2\<bar> < 1 / 1000000" by simp
  from a m d show ?thesis by blast
qed

text \<open>
  C4, amended. For every non-empty list of candidate records (integer scores) the
  average card shows the exact mean of the scores rounded to the nearest integer, halves
  upwards, so the shown value differs from the exact mean by at most one half. The
  divisor is the number of candidate records: nothing but the records enters the sum or
  the count.
\<close>

theorem avgScore_rounds_mean:
  "rs \<noteq> [] \<Longrightarrow>
     avgScore rs = Num (of_int \<lfloor>meanScore rs + 1 / 2\<rfloor>)
     \<and> \<bar>of_int \<lfloor>meanScore rs + 1 / 2\<rfloor> - meanScore rs\<bar> \<le> 1 / 2"
  using avgScore_nonempty round_half_up_close by blast

theorem avgScore_rounds_mean_witness:
  "[\<lparr> id' = ''resume_0'', fileName = ''a.pdf'', candidate = ''Sarah Johnson'',
       email = ''sarah.j@email.com'', phone = None, score = 95, status = Shortlisted,
       summary = ''Excellent match'', experience = ''6 years'', skills = [''SQL''],
       education = None, location = None, extractedText = None \<rparr>,
    \<lparr> id' = ''resume_1'', fileName = ''b.pdf'', candidate = ''Michael Chen'',
       email = ''michael.c@email.com'', phone = None, score = 60, status = Rejected,
       summary = ''Good candidate'', experience = ''2 years'', skills = [''SQL''],
       education = None, location = None, extractedText = None \<rparr>,
    \<lparr> id' = ''resume_2'', fileName = ''c.pdf'', candidate = ''Emily Rodriguez'',
       email = ''emily.r@email.com'', phone = None, score = 81, status = Shortlisted,
       summary = ''Excellent match'', experience = ''5 years'', skills = [''SQL''],
       education = None, location = None, extractedText = None \<rparr>] \<noteq> []
   \<and> avgScore
     [\<lparr> id' = ''resume_0'', fileName = ''a.pdf'', candidate = ''Sarah Johnson'',
         email = ''sarah.j@email.com'', phone = None, score = 95, status = Shortlisted,
         summary = ''Excellent match'', experience = ''6 years'', skills = [''SQL''],
         education = None, location = None, extractedText = None \<rparr>,
      \<lparr> id' = ''resume_1'', fileName = ''b.pdf'', candidate = ''Michael Chen'',
         email = ''michael.c@email.com'', phone = None, score = 60, status = Rejected,
         summary = ''Good candidate'', experience = ''2 years'', skills = [''SQL''],
         education = None, location = None, extractedText = None \<rparr>,
      \<lparr> id' = ''resume_2'', fileName = ''c.pdf'', candidate = ''Emily Rodriguez'',
         email = ''emily.r@email.com'', phone = None, score = 81, status = Shortlisted,
         summary = ''Excellent match'', experience = ''5 years'', skills = [''SQL''],
         education = None, location = None, extractedText = None \<rparr>] = Num 79"
proof -
  have f: "\<lfloor>(475 / 6 :: rat)\<rfloor> = 79" by code_simp
  show ?thesis
  using f avgScore_rounds_mean
    [of "[\<lparr> id' = ''resume_0'', fileName = ''a.pdf'', candidate = ''Sarah Johnson'',
         email = ''sarah.j@email.com'', phone = None, score = 95, status = Shortlisted,
         summary = ''Excellent match'', experience = ''6 years'', skills = [''SQL''],
         education = None, location = None, extractedText = None \<rparr>,
      \<lparr> id' = ''resume_1'', fileName = ''b.pdf'', candidate = ''Michael Chen'',
         email = ''michael.c@email.com'', phone = None, score = 60, status = Rejected,
         summary = ''Good candidate'', experience = ''2 years'', skills = [''SQL''],
         education = None, location = None, extractedText = None \<rparr>,
      \<lparr> id' = ''resume_2'', fileName = ''c.pdf'', candidate = ''Emily Rodriguez'',
         email = ''emily.r@email.com'', phone = None, score = 81, status = Shortlisted,
         summary = ''Excellent match'', experience = ''5 years'', skills = [''SQL''],
         education = None, location = None, extractedText = None \<rparr>]"]
  by (simp add: meanScore_def)
qed


section \<open>Decimal rendering is injective\<close>

lemma show_nat_nonempty: "show_nat n \<noteq> []"
  by (subst show_nat.simps) simp

lemma digit_char_inj:
  "a < 10 \<Longrightarrow> b < 10 \<Longrightarrow> char_of (48 + a :: nat) = char_of (48 + b :: nat) \<Longrightarrow> a = b"
  by (simp add: char_of_eq_iff take_bit_nat_eq_self)

lemma show_nat_inj: "show_nat m = show_nat n \<Longrightarrow> m = n"
proof (induction m arbitrary: n rule: show_nat.induct)
  case (1 m)
  show ?case
  proof (cases "m < 10")
    case mlt: True
    show ?thesis
    proof (cases "n < 10")
      case True
      with mlt "1.prems" show ?thesis
        by (simp add: show_nat.simps [of m] show_nat.simps [of n] digit_char_inj)
    next
      case False
      with mlt "1.prems" show_nat_nonempty [of "n div 10"] show ?thesis
        by (simp add: show_nat.simps [of m] show_nat.simps [of n])
    qed
  next
    case mge: False
    show ?thesis
    proof (cases "n < 10")
      case True
      with mge "1.prems" show_nat_nonempty [of "m div 10"] show ?thesis
        by (simp add: show_nat.simps [of m] show_nat.simps [of n])
    next
      case False
      with mge "1.prems" have eq: "show_nat (m div 10) = show_nat (n div 10)"
        and d: "char_of (48 + m mod 10) = (char_of (48 + n mod 10) :: char)"
        by (simp_all add: show_nat.simps [of m] show_nat.simps [of n])
      from "1.IH" [OF mge eq] have q: "m div 10 = n div 10" .
      from d have r: "m mod 10 = n mod 10"
        by (intro digit_char_inj) simp_all
      from q r show ?thesis
        by (metis div_mult_mod_eq)
    qed
  qed
qed


section \<open>Facts about the demo fallback\<close>

lemma mockResume_fields:
  "id' (fst (mockResume random k index file)) = ''resume_'' @ show_nat index"
  "fileName (fst (mockResume random k index file)) = name file"
  "score (fst (mockResume random k index file)) = \<lfloor>random k * 40\<rfloor> + 60"
  "status (fst (mockResume random k index file))
     = (if score (fst (mockResume random k index file)) \<ge> 80 then Shortlisted else Rejected)"
  by (simp_all add: mockResume_def Let_def)

lemma mockResumes_from_ids:
  "map id' (mockResumes_from random k i fs)
     = map (\<lambda>j. ''resume_'' @ show_nat j) [i ..< i + length fs]"
proof (induction fs arbitrary: k i)
  case Nil
  show ?case by simp
next
  case (Cons f fs)
  have "[i ..< i + length (f # fs)] = i # [Suc i ..< Suc i + length fs]"
    by (subst upt_rec) simp
  with Cons.IH mockResume_fields(1) [of random k i f] show ?case
    by (simp add: split_beta)
qed

lemma mockResumes_from_distinct_ids: "distinct (map id' (mockResumes_from random k i fs))"
  unfolding mockResumes_from_ids
  by (rule distinct_map [THEN iffD2]) (auto intro!: inj_onI dest: show_nat_inj)

lemma mockResumes_from_fileNames:
  "map fileName (mockResumes_from random k i fs) = map name fs"
  by (induction fs arbitrary: k i) (simp_all add: split_beta mockResume_fields)

lemma mockResumes_from_status:
  "c \<in> set (mockResumes_from random k i fs) \<Longrightarrow> (status c = Shortlisted) = (score c \<ge> 80)"
proof (induction fs arbitrary: k i)
  case Nil
  then show ?case by simp
next
  case (Cons f fs)
  from Cons.prems consider "c = fst (mockResume random k i f)"
    | "c \<in> set (mockResumes_from random (snd (mockResume random k i f)) (Suc i) fs)"
    by (auto simp: split_beta)
  then show ?case
  proof cases
    case 1
    then show ?thesis by (simp add: mockResume_fields(4))
  next
    case 2
    then show ?thesis by (rule Cons.IH)
  qed
qed


lemma filter_same_key:
  "distinct (map f xs) \<Longrightarrow> c \<in> set xs \<Longrightarrow> filter (\<lambda>r. f r = f c) xs = [c]"
proof (induction xs)
  case Nil
  then show ?case by simp
next
  case (Cons x xs)
  show ?case
  proof (cases "x = c")
    case True
    with Cons.prems have "\<forall>r \<in> set xs. f r \<noteq> f c" by (auto simp: image_iff)
    then have "filter (\<lambda>r. f r = f c) xs = []" by (simp add: filter_empty_conv)
    with True show ?thesis by simp
  next
    case False
    with Cons.prems have "c \<in> set xs" "f x \<noteq> f c" by auto
    with Cons show ?thesis by simp
  qed
qed

lemma drafts_for_candidate:
  assumes "distinct (map id' rs)" and "c \<in> set rs"
  shows "filter (\<lambda>e. candidateId e = id' c) (mockRejectionEmails jd rs)
           = (if status c = Rejected then [mockRejectionEmail jd c] else [])"
proof -
  have "filter (\<lambda>e. candidateId e = id' c) (mockRejectionEmails jd rs)
          = map (mockRejectionEmail jd)
              (filter (\<lambda>r. status r = Rejected) (filter (\<lambda>r. id' r = id' c) rs))"
    by (simp add: mockRejectionEmails_def rejectedCandidates_def filter_map o_def
          mockRejectionEmail_def conj_commute)
  also have "filter (\<lambda>r. id' r = id' c) rs = [c]"
    using assms by (rule filter_same_key)
  finally show ?thesis by simp
qed



lemma simulateMockProcessing_fields:
  "processedResumes (fst (simulateMockProcessing random now ctx))
     = mockResumes random (uploadedFiles ctx)"
  "rejectionEmails (fst (simulateMockProcessing random now ctx))
     = mockRejectionEmails (jobDescription ctx) (mockResumes random (uploadedFiles ctx))"
  "snd (simulateMockProcessing random now ctx) = ''/results''"
  by (simp_all add: simulateMockProcessing_def Let_def)


lemma mockRejectionEmails_sources:
  "e \<in> set (mockRejectionEmails jd rs) \<Longrightarrow>
     \<exists>c \<in> set rs. e = mockRejectionEmail jd c \<and> status c = Rejected"
  by (auto simp: mockRejectionEmails_def rejectedCandidates_def)


section \<open>Splitting and joining the job description\<close>

lemma js_split_nonempty: "js_split sep s \<noteq> []"
  by (induction s) (auto split: list.splits)

lemma js_join_Cons: "ws \<noteq> [] \<Longrightarrow> js_join sp (w # ws) = w @ sp @ js_join sp ws"
  by (cases ws) simp_all

lemma js_join_split: "js_join [sep] (js_split sep s) = s"
proof (induction s)
  case Nil
  show ?case by simp
next
  case (Cons c cs)
  show ?case
  proof (cases "c = sep")
    case True
    with Cons js_split_nonempty [of sep cs] show ?thesis
      by (simp add: js_join_Cons)
  next
    case False
    obtain w ws where sp: "js_split sep cs = w # ws"
      using js_split_nonempty [of sep cs] by (cases "js_split sep cs") auto
    with Cons have "w @ (if ws = [] then [] else [sep] @ js_join [sep] ws) = cs"
      by (cases ws) simp_all
    with False sp show ?thesis
      by (cases ws) simp_all
  qed
qed

lemma js_split_pieces: "w \<in> set (js_split sep s) \<Longrightarrow> sep \<notin> set w"
proof (induction s arbitrary: w)
  case Nil
  then show ?case by simp
next
  case (Cons c cs)
  then show ?case
    by (cases "js_split sep cs") (auto split: if_splits)
qed

lemma js_join_take_prefix: "prefix (js_join sp (take n ws)) (js_join sp ws)"
proof (induction ws arbitrary: n)
  case Nil
  show ?case by simp
next
  case (Cons w ws)
  show ?case
  proof (cases n)
    case 0
    then show ?thesis by simp
  next
    case (Suc m)
    show ?thesis
    proof (cases "take m ws = []")
      case True
      then show ?thesis using Suc by (cases ws) simp_all
    next
      case False
      then have "ws \<noteq> []" by auto
      with False Suc Cons.IH [of m] show ?thesis
        by (simp add: js_join_Cons)
    qed
  qed
qed

lemma js_join_count_sep:
  "\<forall>w \<in> set ws. sep \<notin> set w \<Longrightarrow>
     length (filter (\<lambda>ch. ch = sep) (js_join [sep] ws)) = length ws - 1"
proof (induction ws)
  case Nil
  show ?case by simp
next
  case (Cons w ws)
  from Cons.prems have w: "filter (\<lambda>ch. ch = sep) w = []"
    by (auto simp: filter_empty_conv)
  show ?case
  proof (cases ws)
    case Nil
    with w show ?thesis by simp
  next
    case (Cons v vs)
    with Cons.IH Cons.prems w show ?thesis by simp
  qed
qed

lemma positionExcerpt_prefix: "prefix (positionExcerpt jd) jd"
proof -
  have "prefix (js_join '' '' (take 3 (js_split CHR '' '' jd)))
               (js_join '' '' (js_split CHR '' '' jd))"
    by (rule js_join_take_prefix)
  then show ?thesis
    by (simp add: positionExcerpt_def slice0_def js_join_split)
qed

lemma positionExcerpt_words:
  "length (filter (\<lambda>ch. ch = CHR '' '') (positionExcerpt jd)) \<le> 2"
proof -
  have "\<forall>w \<in> set (take 3 (js_split CHR '' '' jd)). CHR '' '' \<notin> set w"
    by (meson in_set_takeD js_split_pieces)
  then have "length (filter (\<lambda>ch. ch = CHR '' '') (js_join '' '' (take 3 (js_split CHR '' '' jd))))
               = length (take 3 (js_split CHR '' '' jd)) - 1"
    by (rule js_join_count_sep)
  then show ?thesis
    by (simp add: positionExcerpt_def slice0_def)
qed

section \<open>Classification in the demo fallback\<close>

text \<open>
  C1. The only classification code of the repository is the demo fallback, whose
  threshold is the literal 80 (no caller can pass another one, so 80 is the effective
  threshold of every run). Every candidate record of such a run is shortlisted if and
  only if its score is at least 80, whatever \<^verbatim>\<open>Math.random\<close> returned; a score of
  exactly 80 is shortlisted.
\<close>

theorem mock_status_iff_threshold:
  "\<forall>c \<in> set (processedResumes (fst (simulateMockProcessing random now ctx))).
     (status c = Shortlisted) = (score c \<ge> 80)"
  by (simp add: simulateMockProcessing_fields mockResumes_def mockResumes_from_status)

theorem mock_status_iff_threshold_witness:
  "(let run = fst (simulateMockProcessing (\<lambda>k. 1 / 2) 1700000000000
                (initialContext\<lparr> jobDescription := ''Senior Software Engineer with 5 years'',
                    uploadedFiles := [\<lparr> name = ''cv.pdf'', ftype = ''application/pdf'',
                                         fsize = 8, blob = ''%PDF-1.4'' \<rparr>] \<rparr>))
    in hd (processedResumes run) \<in> set (processedResumes run)
       \<and> score (hd (processedResumes run)) = 80
       \<and> status (hd (processedResumes run)) = Shortlisted)"
proof -
  define run where "run = fst (simulateMockProcessing (\<lambda>k. 1 / 2) 1700000000000
                (initialContext\<lparr> jobDescription := ''Senior Software Engineer with 5 years'',
                    uploadedFiles := [\<lparr> name = ''cv.pdf'', ftype = ''application/pdf'',
                                         fsize = 8, blob = ''%PDF-1.4'' \<rparr>] \<rparr>))"
  have ne: "processedResumes run \<noteq> []"
    by (simp add: run_def simulateMockProcessing_fields initialContext_def mockResumes_def
          split_beta)
  then have m: "hd (processedResumes run) \<in> set (processedResumes run)" by simp
  have s: "score (hd (processedResumes run)) = 80"
    by (simp add: run_def simulateMockProcessing_fields initialContext_def mockResumes_def
          split_beta mockResume_fields)
  from mock_status_iff_threshold [of "\<lambda>k. 1 / 2" 1700000000000
         "initialContext\<lparr> jobDescription := ''Senior Software Engineer with 5 years'',
                    uploadedFiles := [\<lparr> name = ''cv.pdf'', ftype = ''application/pdf'',
                                         fsize = 8, blob = ''%PDF-1.4'' \<rparr>] \<rparr>", folded run_def] m s
  have "status (hd (processedResumes run)) = Shortlisted" by simp
  with m s show ?thesis unfolding Let_def run_def by simp
qed



section \<open>Rejection drafts of a run\<close>

text \<open>
  C2. In the result of a fallback run, a candidate record has exactly one draft with its
  id when its status is rejected and none when it is shortlisted; and every draft
  carries the id of a rejected candidate record of the run.
\<close>

theorem mock_draft_iff_rejected:
  "(\<forall>c \<in> set (processedResumes (fst (simulateMockProcessing random now ctx))).
      length (filter (\<lambda>e. candidateId e = id' c)
                (rejectionEmails (fst (simulateMockProcessing random now ctx))))
        = (if status c = Rejected then 1 else 0))
   \<and> (\<forall>e \<in> set (rejectionEmails (fst (simulateMockProcessing random now ctx))).
        \<exists>c \<in> set (processedResumes (fst (simulateMockProcessing random now ctx))).
          candidateId e = id' c \<and> status c = Rejected)"
proof (intro conjI ballI)
  fix c
  assume "c \<in> set (processedResumes (fst (simulateMockProcessing random now ctx)))"
  then have c: "c \<in> set (mockResumes random (uploadedFiles ctx))"
    by (simp add: simulateMockProcessing_fields)
  have "distinct (map id' (mockResumes random (uploadedFiles ctx)))"
    by (simp add: mockResumes_def mockResumes_from_distinct_ids)
  from drafts_for_candidate [OF this c]
  show "length (filter (\<lambda>e. candidateId e = id' c)
                (rejectionEmails (fst (simulateMockProcessing random now ctx))))
        = (if status c = Rejected then 1 else 0)"
    by (simp add: simulateMockProcessing_fields)
next
  fix e
  assume "e \<in> set (rejectionEmails (fst (simulateMockProcessing random now ctx)))"
  then have "e \<in> set (mockRejectionEmails (jobDescription ctx)
                        (mockResumes random (uploadedFiles ctx)))"
    by (simp add: simulateMockProcessing_fields)
  from mockRejectionEmails_sources [OF this]
  show "\<exists>c \<in> set (processedResumes (fst (simulateMockProcessing random now ctx))).
          candidateId e = id' c \<and> status c = Rejected"
    by (auto simp: simulateMockProcessing_fields mockRejectionEmail_def)
qed



theorem mock_draft_iff_rejected_witness:
  "(let run = fst (simulateMockProcessing (\<lambda>k. if k = 0 then 0 else 1 / 2) 1700000000000
                (initialContext\<lparr> jobDescription := ''Senior Software Engineer with 5 years'',
                    uploadedFiles :=
                      [\<lparr> name = ''cv1.pdf'', ftype = ''application/pdf'', fsize = 8,
                          blob = ''%PDF-1.4'' \<rparr>,
                       \<lparr> name = ''cv2.docx'', ftype = [], fsize = 4, blob = ''PK34'' \<rparr>] \<rparr>))
    in map status (processedResumes run) = [Rejected, Shortlisted]
       \<and> map (\<lambda>c. length (filter (\<lambda>e. candidateId e = id' c) (rejectionEmails run)))
            (processedResumes run) = [1, 0]
       \<and> map candidateId (rejectionEmails run) = [''resume_0''])"
proof -
  define run where "run = fst (simulateMockProcessing (\<lambda>k. if k = 0 then 0 else 1 / 2) 1700000000000
                (initialContext\<lparr> jobDescription := ''Senior Software Engineer with 5 years'',
                    uploadedFiles :=
                      [\<lparr> name = ''cv1.pdf'', ftype = ''application/pdf'', fsize = 8,
                          blob = ''%PDF-1.4'' \<rparr>,
                       \<lparr> name = ''cv2.docx'', ftype = [], fsize = 4, blob = ''PK34'' \<rparr>] \<rparr>))"
  have st: "map status (processedResumes run) = [Rejected, Shortlisted]"
    unfolding run_def simulateMockProcessing_fields by code_simp
  have ids: "map candidateId (rejectionEmails run) = [''resume_0'']"
    unfolding run_def simulateMockProcessing_fields by code_simp
  have "\<forall>c \<in> set (processedResumes run).
          length (filter (\<lambda>e. candidateId e = id' c) (rejectionEmails run))
            = (if status c = Rejected then 1 else 0)"
    unfolding run_def by (rule mock_draft_iff_rejected [THEN conjunct1])
  then have "map (\<lambda>c. length (filter (\<lambda>e. candidateId e = id' c) (rejectionEmails run)))
               (processedResumes run)
             = map (\<lambda>s. if s = Rejected then 1 else 0) (map status (processedResumes run))"
    by (simp add: o_def)
  with st have "map (\<lambda>c. length (filter (\<lambda>e. candidateId e = id' c) (rejectionEmails run)))
               (processedResumes run) = [1, 0]"
    by simp
  with st ids show ?thesis unfolding Let_def run_def by simp
qed

text \<open>
  C7. Every draft of a run has the subject \<^verbatim>\<open>Thank you for your application - \<close>
  followed by the position label: the leading words of the job description (its text
  up to the third space, so a prefix of it with at most two spaces) and the word
  \<^verbatim>\<open>Position\<close>.
\<close>

theorem mock_subject_format:
  "(\<forall>e \<in> set (rejectionEmails (fst (simulateMockProcessing random now ctx))).
      subject e = ''Thank you for your application - ''
                  @ positionExcerpt (jobDescription ctx) @ '' Position'')
   \<and> prefix (positionExcerpt (jobDescription ctx)) (jobDescription ctx)
   \<and> length (filter (\<lambda>ch. ch = CHR '' '') (positionExcerpt (jobDescription ctx))) \<le> 2"
proof -
  have "subject e = ''Thank you for your application - ''
                  @ positionExcerpt (jobDescription ctx) @ '' Position''"
    if "e \<in> set (rejectionEmails (fst (simulateMockProcessing random now ctx)))" for e
  proof -
    from that have "e \<in> set (mockRejectionEmails (jobDescription ctx)
                        (mockResumes random (uploadedFiles ctx)))"
      by (simp add: simulateMockProcessing_fields)
    from mockRejectionEmails_sources [OF this] show ?thesis
      by (auto simp: mockRejectionEmail_def)
  qed
  with positionExcerpt_prefix positionExcerpt_words show ?thesis by blast
qed


theorem mock_subject_format_witness:
  "(let run = fst (simulateMockProcessing (\<lambda>k. 0) 1700000000000
                (initialContext\<lparr> jobDescription := ''Senior Software Engineer with 5 years'',
                    uploadedFiles :=
                      [\<lparr> name = ''cv1.pdf'', ftype = ''application/pdf'', fsize = 8,
                          blob = ''%PDF-1.4'' \<rparr>] \<rparr>))
    in map subject (rejectionEmails run)
         = [''Thank you for your application - Senior Software Engineer Position''])"
proof -
  define run where "run = fst (simulateMockProcessing (\<lambda>k. 0) 1700000000000
                (initialContext\<lparr> jobDescription := ''Senior Software Engineer with 5 years'',
                    uploadedFiles :=
                      [\<lparr> name = ''cv1.pdf'', ftype = ''application/pdf'', fsize = 8,
                          blob = ''%PDF-1.4'' \<rparr>] \<rparr>))"
  have len: "length (rejectionEmails run) = 1"
    unfolding run_def simulateMockProcessing_fields by code_simp
  have ex: "positionExcerpt ''Senior Software Engineer with 5 years'' = ''Senior Software Engineer''"
    by code_simp
  have "\<forall>e \<in> set (rejectionEmails run).
          subject e = ''Thank you for your application - Senior Software Engineer Position''"
    unfolding run_def
    using mock_subject_format [of "\<lambda>k. 0" 1700000000000
            "initialContext\<lparr> jobDescription := ''Senior Software Engineer with 5 years'',
                    uploadedFiles :=
                      [\<lparr> name = ''cv1.pdf'', ftype = ''application/pdf'', fsize = 8,
                          blob = ''%PDF-1.4'' \<rparr>] \<rparr>", THEN conjunct1]
    by (simp add: ex)
  then have "map subject (rejectionEmails run)
               = replicate (length (rejectionEmails run))
                   ''Thank you for your application - Senior Software Engineer Position''"
    by (simp add: map_replicate_const [symmetric])
  with len show ?thesis unfolding Let_def run_def by simp
qed

text \<open>
  C9. The drafter is a function of the candidate record and the job description text:
  it takes neither the backend nor the random source, and none of the string operations
  it uses can throw. Two records with the same candidate name and email give, for the
  same job description, the same subject, body, name and address, whatever else differs
  between the records (id, file, score, summary). The drafts of a run are this function
  applied to the rejected candidate records of the run, so they depend on the random
  source only through those records.
\<close>

theorem drafter_deterministic:
  "candidate r1 = candidate r2 \<Longrightarrow> email r1 = email r2 \<Longrightarrow>
     subject (mockRejectionEmail jd r1) = subject (mockRejectionEmail jd r2)
     \<and> content (mockRejectionEmail jd r1) = content (mockRejectionEmail jd r2)
     \<and> candidate' (mockRejectionEmail jd r1) = candidate' (mockRejectionEmail jd r2)
     \<and> email' (mockRejectionEmail jd r1) = email' (mockRejectionEmail jd r2)
     \<and> rejectionEmails (fst (simulateMockProcessing random now ctx))
         = map (mockRejectionEmail (jobDescription ctx))
             (rejectedCandidates (processedResumes (fst (simulateMockProcessing random now ctx))))"
  by (simp add: mockRejectionEmail_def simulateMockProcessing_fields mockRejectionEmails_def)

theorem drafter_deterministic_witness:
  "(let r1 = \<lparr> id' = ''resume_0'', fileName = ''cv1.pdf'', candidate = ''Sarah Johnson'',
                 email = ''sarah.j@email.com'', phone = None, score = 60, status = Rejected,
                 summary = ''Good candidate'', experience = ''2 years'', skills = [''SQL''],
                 education = None, location = None, extractedText = None \<rparr>;
        r2 = \<lparr> id' = ''resume_10'', fileName = ''other.docx'', candidate = ''Sarah Johnson'',
                 email = ''sarah.j@email.com'', phone = None, score = 79, status = Rejected,
                 summary = ''Good candidate'', experience = ''9 years'', skills = [''AWS''],
                 education = None, location = None, extractedText = None \<rparr>
    in candidate r1 = candidate r2 \<and> email r1 = email r2 \<and> r1 \<noteq> r2
       \<and> subject (mockRejectionEmail ''Senior Software Engineer with 5 years'' r1)
           = subject (mockRejectionEmail ''Senior Software Engineer with 5 years'' r2)
       \<and> content (mockRejectionEmail ''Senior Software Engineer with 5 years'' r1)
           = content (mockRejectionEmail ''Senior Software Engineer with 5 years'' r2))"
  unfolding Let_def
  using drafter_deterministic
    [of "\<lparr> id' = ''resume_0'', fileName = ''cv1.pdf'', candidate = ''Sarah Johnson'',
            email = ''sarah.j@email.com'', phone = None, score = 60, status = Rejected,
            summary = ''Good candidate'', experience = ''2 years'', skills = [''SQL''],
            education = None, location = None, extractedText = None \<rparr>"
        "\<lparr> id' = ''resume_10'', fileName = ''other.docx'', candidate = ''Sarah Johnson'',
            email = ''sarah.j@email.com'', phone = None, score = 79, status = Rejected,
            summary = ''Good candidate'', experience = ''9 years'', skills = [''AWS''],
            education = None, location = None, extractedText = None \<rparr>"
        "''Senior Software Engineer with 5 years''" "\<lambda>k. 0" 0 initialContext]
  by simp


section \<open>Upload intake\<close>

lemma endsWith_suffix: "endsWith s t = suffix t s"
proof
  assume "endsWith s t"
  then have "s = take (length s - length t) s @ t"
    by (metis append_take_drop_id endsWith_def)
  then show "suffix t s" by (rule suffixI)
next
  assume "suffix t s"
  then obtain ys where "s = ys @ t" by (auto simp: suffix_def)
  then show "endsWith s t" by (simp add: endsWith_def)
qed

lemma newFiles_blob:
  "newFiles (map (\<lambda>f. f\<lparr>blob := c f\<rparr>) fl) = map (\<lambda>f. f\<lparr>blob := c f\<rparr>) (newFiles fl)"
  by (simp add: newFiles_def filter_map o_def)


text \<open>
  C6, as the specification states it: intake accepts exactly the files whose content is
  PDF, DOC or DOCX, decided by the content, and rejects the others with
  \<^verbatim>\<open>UnsupportedFormat\<close>. The upload page decides on the declared MIME type and the
  name alone: a file that starts with the PDF signature but has no extension and an empty
  declared type is dropped, and nothing records it (the context is unchanged), while a
  plain-text file named \<^verbatim>\<open>notes.DOC\<close> is kept.
\<close>

theorem intake_by_content_counterexample:
  "newFiles [\<lparr> name = ''resume'', ftype = [], fsize = 8, blob = ''%PDF-1.4'' \<rparr>] = []
   \<and> handleFileUpload
         (Some [\<lparr> name = ''resume'', ftype = [], fsize = 8, blob = ''%PDF-1.4'' \<rparr>])
         initialContext = initialContext
   \<and> newFiles [\<lparr> name = ''notes.DOC'', ftype = ''text/plain'', fsize = 5, blob = ''hello'' \<rparr>]
       = [\<lparr> name = ''notes.DOC'', ftype = ''text/plain'', fsize = 5, blob = ''hello'' \<rparr>]"
proof -
  have a: "newFiles [\<lparr> name = ''resume'', ftype = [], fsize = 8, blob = ''%PDF-1.4'' \<rparr>] = []"
    by code_simp
  have b: "newFiles [\<lparr> name = ''notes.DOC'', ftype = ''text/plain'', fsize = 5, blob = ''hello'' \<rparr>]
       = [\<lparr> name = ''notes.DOC'', ftype = ''text/plain'', fsize = 5, blob = ''hello'' \<rparr>]"
    by code_simp
  from a have c: "handleFileUpload
         (Some [\<lparr> name = ''resume'', ftype = [], fsize = 8, blob = ''%PDF-1.4'' \<rparr>])
         initialContext = initialContext"
    by (simp add: handleFileUpload_def initialContext_def)
  from a b c show ?thesis by blast
qed


text \<open>
  C6, amended. \<^verbatim>\<open>handleFileUpload\<close> appends exactly the offered files whose declared
  MIME type is \<^verbatim>\<open>application/pdf\<close> or whose name, in lower case, ends in
  \<^verbatim>\<open>.doc\<close> or \<^verbatim>\<open>.docx\<close>, in the order offered; every other file is left out
  without any error. The bytes of a file play no part: replacing the contents of the
  offered files changes nothing in which of them are kept. For \<^verbatim>\<open>null\<close> the context
  is unchanged.
\<close>

theorem intake_by_declared_type:
  "uploadedFiles (handleFileUpload (Some fl) ctx)
     = uploadedFiles ctx
       @ filter (\<lambda>f. ftype f = ''application/pdf''
                     \<or> suffix ''.doc'' (toLowerCase (name f))
                     \<or> suffix ''.docx'' (toLowerCase (name f))) fl
   \<and> newFiles (map (\<lambda>f. f\<lparr>blob := c f\<rparr>) fl) = map (\<lambda>f. f\<lparr>blob := c f\<rparr>) (newFiles fl)
   \<and> handleFileUpload None ctx = ctx"
  by (simp add: handleFileUpload_def newFiles_def endsWith_suffix filter_map o_def)


section \<open>The request sent to the backend\<close>

lemma formData_foldl:
  "foldl (\<lambda>fd file. formData_append fd ''resumes'' (FileValue file)) acc fs
     = acc @ map (\<lambda>file. (''resumes'', FileValue file)) fs"
  by (induction fs arbitrary: acc) (simp_all add: formData_append_def)

lemma request_interceptor_headers:
  "request_interceptor browser
     \<lparr> url = u, headers = [(''Content-Type'', ''multipart/form-data'')], body = b \<rparr>
   = \<lparr> url = u,
       headers = (case auth_token browser of
                    None \<Rightarrow> [(''Content-Type'', ''multipart/form-data'')]
                  | Some token \<Rightarrow>
                      if token = [] then [(''Content-Type'', ''multipart/form-data'')]
                      else [(''Content-Type'', ''multipart/form-data''),
                            (''Authorization'', ''Bearer '' @ token)]),
       body = b \<rparr>"
  by (simp add: request_interceptor_def split: option.splits)

lemma processResumes_sends:
  "processResumes server data browser
     = api_post server
         \<lparr> url = ''/resumes/process'',
           headers = [(''Content-Type'', ''multipart/form-data'')],
           body = (''jobDescription'', StringValue (jobDescription' data))
                  # map (\<lambda>file. (''resumes'', FileValue file)) (files data) \<rparr>
         browser"
  unfolding processResumes_def Let_def formData_foldl
  by (simp add: formData_append_def)

lemma processResumes_result:
  "fst (processResumes server data browser)
     = server
         \<lparr> url = ''/resumes/process'',
           headers = (case auth_token browser of
                        None \<Rightarrow> [(''Content-Type'', ''multipart/form-data'')]
                      | Some token \<Rightarrow>
                          if token = [] then [(''Content-Type'', ''multipart/form-data'')]
                          else [(''Content-Type'', ''multipart/form-data''),
                                (''Authorization'', ''Bearer '' @ token)]),
           body = (''jobDescription'', StringValue (jobDescription' data))
                  # map (\<lambda>file. (''resumes'', FileValue file)) (files data) \<rparr>"
  unfolding processResumes_sends api_post_def request_interceptor_headers
  by (simp split: sum.splits)

lemma processResumes_browser:
  "snd (processResumes server data browser)
     = (case fst (processResumes server data browser) of
          Inr response \<Rightarrow> browser
        | Inl error \<Rightarrow> response_interceptor error browser)"
  unfolding processResumes_sends api_post_def
  by (simp split: sum.splits)

lemma processResumes_const_server:
  "processResumes (\<lambda>request. fst (processResumes server data browser)) data browser
     = processResumes server data browser"
  unfolding processResumes_sends api_post_def
  by (simp split: sum.splits)


text \<open>
  C8. Whatever the server is, what \<^verbatim>\<open>resumeAPI.processResumes\<close> returns or throws is
  the server's answer to one request: the path \<^verbatim>\<open>/resumes/process\<close>, the
  \<^verbatim>\<open>Content-Type\<close> header and, when the \<^verbatim>\<open>auth_token\<close> cookie is not empty, the
  \<^verbatim>\<open>Authorization\<close> header, and a form that holds one \<^verbatim>\<open>jobDescription\<close> entry
  with the job description followed by one \<^verbatim>\<open>resumes\<close> entry per file, in order, and
  nothing else. A processing run consults the server on that request only, built from
  the job description and the uploaded files of the context: replacing the server by
  its answer to that request changes nothing in the run. No comparison score can enter:
  the object that the context provides has no \<^verbatim>\<open>comparisonScore\<close> and no
  \<^verbatim>\<open>setComparisonScore\<close> property.
\<close>

theorem request_payload:
  "fst (processResumes server data browser)
     = server
         \<lparr> url = ''/resumes/process'',
           headers = (case auth_token browser of
                        None \<Rightarrow> [(''Content-Type'', ''multipart/form-data'')]
                      | Some token \<Rightarrow>
                          if token = [] then [(''Content-Type'', ''multipart/form-data'')]
                          else [(''Content-Type'', ''multipart/form-data''),
                                (''Authorization'', ''Bearer '' @ token)]),
           body = (''jobDescription'', StringValue (jobDescription' data))
                  # map (\<lambda>file. (''resumes'', FileValue file)) (files data) \<rparr>
   \<and> processResumesWithAPI server random now documentReplaced browser ctx
     = processResumesWithAPI
         (\<lambda>request. server
            \<lparr> url = ''/resumes/process'',
              headers = (case auth_token browser of
                           None \<Rightarrow> [(''Content-Type'', ''multipart/form-data'')]
                         | Some token \<Rightarrow>
                             if token = [] then [(''Content-Type'', ''multipart/form-data'')]
                             else [(''Content-Type'', ''multipart/form-data''),
                                   (''Authorization'', ''Bearer '' @ token)]),
              body = (''jobDescription'', StringValue (jobDescription ctx))
                     # map (\<lambda>file. (''resumes'', FileValue file)) (uploadedFiles ctx) \<rparr>)
         random now documentReplaced browser ctx
   \<and> ''comparisonScore'' \<notin> set ResumeContext_value_keys
   \<and> ''setComparisonScore'' \<notin> set ResumeContext_value_keys"
proof -
  have k: "''comparisonScore'' \<notin> set ResumeContext_value_keys
           \<and> ''setComparisonScore'' \<notin> set ResumeContext_value_keys"
    by (simp add: ResumeContext_value_keys_def)
  have "processResumes
          (\<lambda>request. fst (processResumes server
             \<lparr> jobDescription' = jobDescription ctx, files = uploadedFiles ctx \<rparr> browser))
          \<lparr> jobDescription' = jobDescription ctx, files = uploadedFiles ctx \<rparr> browser
        = processResumes server
            \<lparr> jobDescription' = jobDescription ctx, files = uploadedFiles ctx \<rparr> browser"
    by (rule processResumes_const_server)
  then have r: "processResumesWithAPI server random now documentReplaced browser ctx
     = processResumesWithAPI
         (\<lambda>request. fst (processResumes server
             \<lparr> jobDescription' = jobDescription ctx, files = uploadedFiles ctx \<rparr> browser))
         random now documentReplaced browser ctx"
    by (simp add: processResumesWithAPI_def)
  from k r processResumes_result [of server data browser]
    processResumes_result
      [of server "\<lparr> jobDescription' = jobDescription ctx, files = uploadedFiles ctx \<rparr>" browser]
  show ?thesis by simp
qed

section \<open>Outcome of a processing run\<close>

lemma processResumes_returns:
  assumes "fst (processResumes server data browser) = Inr response"
  shows "processResumes server data browser = (Inr response, browser)"
  using assms processResumes_browser [of server data browser]
  by (cases "processResumes server data browser") simp

lemma processResumes_throws:
  assumes "fst (processResumes server data browser) = Inl error"
  shows "processResumes server data browser = (Inl error, response_interceptor error browser)"
  using assms processResumes_browser [of server data browser]
  by (cases "processResumes server data browser") simp


text \<open>
  C5, as the specification states it: for a partially failed batch the caller receives
  the successful candidate records and drafts together with an explicit per-file failure
  list, never a silently substituted result. Two files are uploaded and the backend can
  process only the first. When the backend answers with the one candidate record, all
  that the caller receives is the context shown in full below and the route
  \<^verbatim>\<open>/results\<close>: \<^verbatim>\<open>broken.pdf\<close> is among the uploaded files and nothing says
  that it failed. When the backend reports the unprocessable file with status 422 (the
  status that API_DOCUMENTATION.md gives for file processing errors), the run stores
  mock records for both files, the broken one included, and goes to the results page.
\<close>

theorem partial_batch_counterexample:
  "processResumesWithAPI
     (\<lambda>request. Inr \<lparr> jobId = ''job-1'',
         candidates' =
           [\<lparr> id' = ''cand-1'', fileName = ''cv1.pdf'', candidate = ''John Doe'',
               email = ''john.doe@email.com'', phone = None, score = 85,
               status = Shortlisted, summary = ''Excellent match'',
               experience = ''5 years'', skills = [''React''], education = None,
               location = None, extractedText = None \<rparr>],
         rejectionEmails' = [], totalProcessed = 1, shortlistedCount = 1,
         rejectedCount = 0, averageScore = 85, processingTime = 1200 \<rparr>)
     (\<lambda>k. 0) 1700000000000 False
     \<lparr> auth_token = Some ''token-1'', refresh_token = Some ''refresh-1'',
       location_href = None \<rparr>
     (initialContext\<lparr> jobDescription := ''Senior Software Engineer with 5 years'',
        uploadedFiles :=
          [\<lparr> name = ''cv1.pdf'', ftype = ''application/pdf'', fsize = 8, blob = ''%PDF-1.4'' \<rparr>,
           \<lparr> name = ''broken.pdf'', ftype = ''application/pdf'', fsize = 0, blob = [] \<rparr>] \<rparr>)
   = (\<lparr> auth_token = Some ''token-1'', refresh_token = Some ''refresh-1'',
        location_href = None \<rparr>,
      Some (\<lparr> jobDescription = ''Senior Software Engineer with 5 years'',
              uploadedFiles =
                [\<lparr> name = ''cv1.pdf'', ftype = ''application/pdf'', fsize = 8,
                    blob = ''%PDF-1.4'' \<rparr>,
                 \<lparr> name = ''broken.pdf'', ftype = ''application/pdf'', fsize = 0,
                    blob = [] \<rparr>],
              processedResumes =
                [\<lparr> id' = ''cand-1'', fileName = ''cv1.pdf'', candidate = ''John Doe'',
                    email = ''john.doe@email.com'', phone = None, score = 85,
                    status = Shortlisted, summary = ''Excellent match'',
                    experience = ''5 years'', skills = [''React''], education = None,
                    location = None, extractedText = None \<rparr>],
              rejectionEmails = [], processing = False, currentJobId = Some ''job-1'' \<rparr>,
            ''/results''))
   \<and> map_option
       (\<lambda>(ctx, route).
          (map (\<lambda>r. (fileName r, candidate r, score r, status r)) (processedResumes ctx), route))
       (snd (processResumesWithAPI
          (\<lambda>request. Inl \<lparr> response_status = Some 422,
                             message = ''Request failed with status code 422'' \<rparr>)
          (\<lambda>k. 0) 1700000000000 False
          \<lparr> auth_token = Some ''token-1'', refresh_token = Some ''refresh-1'',
            location_href = None \<rparr>
          (initialContext\<lparr> jobDescription := ''Senior Software Engineer with 5 years'',
             uploadedFiles :=
               [\<lparr> name = ''cv1.pdf'', ftype = ''application/pdf'', fsize = 8,
                   blob = ''%PDF-1.4'' \<rparr>,
                \<lparr> name = ''broken.pdf'', ftype = ''application/pdf'', fsize = 0,
                   blob = [] \<rparr>] \<rparr>)))
     = Some ([(''cv1.pdf'', ''Sarah Johnson'', 60, Rejected),
              (''broken.pdf'', ''Michael Chen'', 60, Rejected)], ''/results'')"
proof -
  have m: "map (\<lambda>r. (fileName r, candidate r, score r, status r))
             (mockResumes (\<lambda>k. 0)
               [\<lparr> name = ''cv1.pdf'', ftype = ''application/pdf'', fsize = 8,
                   blob = ''%PDF-1.4'' \<rparr>,
                \<lparr> name = ''broken.pdf'', ftype = ''application/pdf'', fsize = 0,
                   blob = [] \<rparr>])
           = [(''cv1.pdf'', ''Sarah Johnson'', 60, Rejected),
              (''broken.pdf'', ''Michael Chen'', 60, Rejected)]"
    by code_simp
  show ?thesis
    by (simp add: processResumesWithAPI_def processResumes_sends api_post_def
          response_interceptor_def simulateMockProcessing_def Let_def initialContext_def m)
qed


text \<open>
  C5, amended. A run of \<^verbatim>\<open>processResumesWithAPI\<close> has one of three outcomes, none of
  which carries an error or a list of failed files.
  \<^item> The call returns a response: the browser state is unchanged, the context takes
    \<^verbatim>\<open>jobId\<close>, \<^verbatim>\<open>candidates\<close> and \<^verbatim>\<open>rejectionEmails\<close> of the response and
    nothing else of it, \<^verbatim>\<open>processing\<close> is false and the route is \<^verbatim>\<open>/results\<close>.
  \<^item> The call fails with anything but status 401 (and no page load is pending): the
    browser state is unchanged and the context takes the demo substitute, one mock record
    per uploaded file with the names of the uploaded files in order and the drafts for
    the rejected mock records; \<^verbatim>\<open>processing\<close> is false and the route is
    \<^verbatim>\<open>/results\<close>.
  \<^item> The call fails with status 401: both token cookies are removed and
    \<^verbatim>\<open>/signin\<close> is assigned to \<^verbatim>\<open>window.location.href\<close>; the demo substitute is
    stored and \<^verbatim>\<open>/results\<close> shown only if the document is still there when the
    timer of the mock fires, otherwise nothing is stored.
\<close>

theorem processing_run_outcomes:
  "(fst (processResumes server
           \<lparr> jobDescription' = jobDescription ctx, files = uploadedFiles ctx \<rparr> browser)
      = Inr response
    \<longrightarrow> processResumesWithAPI server random now documentReplaced browser ctx
        = (browser,
           Some (ctx\<lparr> currentJobId := Some (jobId response),
                      processedResumes := candidates' response,
                      rejectionEmails := rejectionEmails' response,
                      processing := False \<rparr>,
                 ''/results'')))
   \<and> (fst (processResumes server
           \<lparr> jobDescription' = jobDescription ctx, files = uploadedFiles ctx \<rparr> browser)
      = Inl error
      \<and> response_status error \<noteq> Some 401 \<and> location_href browser = None
    \<longrightarrow> processResumesWithAPI server random now documentReplaced browser ctx
        = (browser,
           Some (ctx\<lparr> currentJobId := Some (''mock_job_'' @ show_nat now),
                      processedResumes := mockResumes random (uploadedFiles ctx),
                      rejectionEmails := mockRejectionEmails (jobDescription ctx)
                                           (mockResumes random (uploadedFiles ctx)),
                      processing := False \<rparr>,
                 ''/results''))
      \<and> map fileName (mockResumes random (uploadedFiles ctx)) = map name (uploadedFiles ctx))
   \<and> (fst (processResumes server
           \<lparr> jobDescription' = jobDescription ctx, files = uploadedFiles ctx \<rparr> browser)
      = Inl error
      \<and> response_status error = Some 401
    \<longrightarrow> processResumesWithAPI server random now documentReplaced browser ctx
        = (browser\<lparr> auth_token := None, refresh_token := None,
                     location_href := Some ''/signin'' \<rparr>,
           if documentReplaced then None
           else Some (ctx\<lparr> currentJobId := Some (''mock_job_'' @ show_nat now),
                           processedResumes := mockResumes random (uploadedFiles ctx),
                           rejectionEmails := mockRejectionEmails (jobDescription ctx)
                                                (mockResumes random (uploadedFiles ctx)),
                           processing := False \<rparr>,
                      ''/results'')))"
proof (intro conjI impI)
  assume "fst (processResumes server
           \<lparr> jobDescription' = jobDescription ctx, files = uploadedFiles ctx \<rparr> browser)
      = Inr response"
  from processResumes_returns [OF this]
  show "processResumesWithAPI server random now documentReplaced browser ctx
        = (browser,
           Some (ctx\<lparr> currentJobId := Some (jobId response),
                      processedResumes := candidates' response,
                      rejectionEmails := rejectionEmails' response,
                      processing := False \<rparr>,
                 ''/results''))"
    by (simp add: processResumesWithAPI_def)
next
  assume a: "fst (processResumes server
           \<lparr> jobDescription' = jobDescription ctx, files = uploadedFiles ctx \<rparr> browser)
      = Inl error
      \<and> response_status error \<noteq> Some 401 \<and> location_href browser = None"
  then have "processResumes server
           \<lparr> jobDescription' = jobDescription ctx, files = uploadedFiles ctx \<rparr> browser
         = (Inl error, browser)"
    using processResumes_throws [of server _ browser error]
    by (simp add: response_interceptor_def)
  with a show "processResumesWithAPI server random now documentReplaced browser ctx
        = (browser,
           Some (ctx\<lparr> currentJobId := Some (''mock_job_'' @ show_nat now),
                      processedResumes := mockResumes random (uploadedFiles ctx),
                      rejectionEmails := mockRejectionEmails (jobDescription ctx)
                                           (mockResumes random (uploadedFiles ctx)),
                      processing := False \<rparr>,
                 ''/results''))"
    by (simp add: processResumesWithAPI_def simulateMockProcessing_def Let_def)
next
  show "map fileName (mockResumes random (uploadedFiles ctx)) = map name (uploadedFiles ctx)"
    by (simp add: mockResumes_def mockResumes_from_fileNames)
next
  assume a: "fst (processResumes server
           \<lparr> jobDescription' = jobDescription ctx, files = uploadedFiles ctx \<rparr> browser)
      = Inl error
      \<and> response_status error = Some 401"
  then have "processResumes server
           \<lparr> jobDescription' = jobDescription ctx, files = uploadedFiles ctx \<rparr> browser
         = (Inl error, browser\<lparr> auth_token := None, refresh_token := None,
                     location_href := Some ''/signin'' \<rparr>)"
    using processResumes_throws [of server _ browser error]
    by (simp add: response_interceptor_def)
  then show "processResumesWithAPI server random now documentReplaced browser ctx
        = (browser\<lparr> auth_token := None, refresh_token := None,
                     location_href := Some ''/signin'' \<rparr>,
           if documentReplaced then None
           else Some (ctx\<lparr> currentJobId := Some (''mock_job_'' @ show_nat now),
                           processedResumes := mockResumes random (uploadedFiles ctx),
                           rejectionEmails := mockRejectionEmails (jobDescription ctx)
                                                (mockResumes random (uploadedFiles ctx)),
                           processing := False \<rparr>,
                      ''/results''))"
    by (simp add: processResumesWithAPI_def simulateMockProcessing_def Let_def)
qed

theorem processing_run_outcomes_witness:
  "(let browser = \<lparr> auth_token = Some ''token-1'', refresh_token = Some ''refresh-1'',
                     location_href = None \<rparr>;
        ctx = initialContext\<lparr> jobDescription := ''Senior Software Engineer with 5 years'',
                uploadedFiles :=
                  [\<lparr> name = ''cv1.pdf'', ftype = ''application/pdf'', fsize = 8,
                      blob = ''%PDF-1.4'' \<rparr>,
                   \<lparr> name = ''cv2.docx'', ftype = [], fsize = 4, blob = ''PK34'' \<rparr>] \<rparr>;
        response = \<lparr> jobId = ''job-7'',
                     candidates' =
                       [\<lparr> id' = ''cand-2'', fileName = ''cv2.docx'', candidate = ''Jane Roe'',
                           email = ''jane.roe@email.com'', phone = None, score = 42,
                           status = Rejected, summary = ''Weak match'',
                           experience = ''1 year'', skills = [''SQL''], education = None,
                           location = None, extractedText = None \<rparr>],
                     rejectionEmails' =
                       [\<lparr> candidateId = ''cand-2'', candidate' = ''Jane Roe'',
                           email' = ''jane.roe@email.com'', subject = ''Thank you'',
                           content = ''Dear Jane Roe'' \<rparr>],
                     totalProcessed = 1, shortlistedCount = 0, rejectedCount = 1,
                     averageScore = 42, processingTime = 900 \<rparr>
    in map_option (\<lambda>(c, route). (map fileName (processedResumes c),
                                 map candidateId (rejectionEmails c), currentJobId c, route))
         (snd (processResumesWithAPI (\<lambda>request. Inr response) (\<lambda>k. 0) 1700000000000 True
                 browser ctx))
         = Some ([''cv2.docx''], [''cand-2''], Some ''job-7'', ''/results'')
       \<and> map_option (\<lambda>(c, route). (map fileName (processedResumes c), route))
           (snd (processResumesWithAPI
                   (\<lambda>request. Inl \<lparr> response_status = None, message = ''Network Error'' \<rparr>)
                   (\<lambda>k. 0) 1700000000000 True browser ctx))
         = Some ([''cv1.pdf'', ''cv2.docx''], ''/results'')
       \<and> processResumesWithAPI
           (\<lambda>request. Inl \<lparr> response_status = Some 401,
                              message = ''Request failed with status code 401'' \<rparr>)
           (\<lambda>k. 0) 1700000000000 True browser ctx
         = (\<lparr> auth_token = None, refresh_token = None, location_href = Some ''/signin'' \<rparr>,
            None))"
proof -
  define browser where "browser = \<lparr> auth_token = Some ''token-1'',
                     refresh_token = Some ''refresh-1'', location_href = None \<rparr>"
  define ctx where "ctx = initialContext\<lparr> jobDescription := ''Senior Software Engineer with 5 years'',
                uploadedFiles :=
                  [\<lparr> name = ''cv1.pdf'', ftype = ''application/pdf'', fsize = 8,
                      blob = ''%PDF-1.4'' \<rparr>,
                   \<lparr> name = ''cv2.docx'', ftype = [], fsize = 4, blob = ''PK34'' \<rparr>] \<rparr>"
  define response where "response = \<lparr> jobId = ''job-7'',
                     candidates' =
                       [\<lparr> id' = ''cand-2'', fileName = ''cv2.docx'', candidate = ''Jane Roe'',
                           email = ''jane.roe@email.com'', phone = None, score = 42,
                           status = Rejected, summary = ''Weak match'',
                           experience = ''1 year'', skills = [''SQL''], education = None,
                           location = None, extractedText = None \<rparr>],
                     rejectionEmails' =
                       [\<lparr> candidateId = ''cand-2'', candidate' = ''Jane Roe'',
                           email' = ''jane.roe@email.com'', subject = ''Thank you'',
                           content = ''Dear Jane Roe'' \<rparr>],
                     totalProcessed = 1, shortlistedCount = 0, rejectedCount = 1,
                     averageScore = 42, processingTime = 900 \<rparr>"
  define err0 where "err0 = \<lparr> response_status = None, message = ''Network Error'' \<rparr>"
  define err401 where "err401 = \<lparr> response_status = Some 401,
                              message = ''Request failed with status code 401'' \<rparr>"
  have href: "location_href browser = None" by (simp add: browser_def)
  have s0: "response_status err0 \<noteq> Some 401" by (simp add: err0_def)
  have s1: "response_status err401 = Some 401" by (simp add: err401_def)
  have p1: "fst (processResumes (\<lambda>request. Inr response)
              \<lparr> jobDescription' = jobDescription ctx, files = uploadedFiles ctx \<rparr> browser)
            = Inr response"
    by (simp add: processResumes_result)
  have p2: "fst (processResumes (\<lambda>request. Inl err0)
              \<lparr> jobDescription' = jobDescription ctx, files = uploadedFiles ctx \<rparr> browser)
            = Inl err0"
    by (simp add: processResumes_result)
  have p3: "fst (processResumes (\<lambda>request. Inl err401)
              \<lparr> jobDescription' = jobDescription ctx, files = uploadedFiles ctx \<rparr> browser)
            = Inl err401"
    by (simp add: processResumes_result)
  have r1: "processResumesWithAPI (\<lambda>request. Inr response) (\<lambda>k. 0) 1700000000000 True
              browser ctx
            = (browser,
               Some (ctx\<lparr> currentJobId := Some (jobId response),
                          processedResumes := candidates' response,
                          rejectionEmails := rejectionEmails' response,
                          processing := False \<rparr>,
                     ''/results''))"
    using processing_run_outcomes
      [where server = "\<lambda>request. Inr response" and ctx = ctx and browser = browser
         and response = response and random = "\<lambda>k. 0" and now = 1700000000000
         and documentReplaced = True, THEN conjunct1] p1
    by blast
  have r2: "processResumesWithAPI (\<lambda>request. Inl err0) (\<lambda>k. 0) 1700000000000 True
              browser ctx
            = (browser,
               Some (ctx\<lparr> currentJobId := Some (''mock_job_'' @ show_nat 1700000000000),
                          processedResumes := mockResumes (\<lambda>k. 0) (uploadedFiles ctx),
                          rejectionEmails := mockRejectionEmails (jobDescription ctx)
                                               (mockResumes (\<lambda>k. 0) (uploadedFiles ctx)),
                          processing := False \<rparr>,
                     ''/results''))
            \<and> map fileName (mockResumes (\<lambda>k. 0) (uploadedFiles ctx))
              = map name (uploadedFiles ctx)"
    using processing_run_outcomes
      [where server = "\<lambda>request. Inl err0" and ctx = ctx and browser = browser
         and error = err0 and random = "\<lambda>k. 0" and now = 1700000000000
         and documentReplaced = True, THEN conjunct2, THEN conjunct1] p2 s0 href
    by blast
  have r3: "processResumesWithAPI (\<lambda>request. Inl err401) (\<lambda>k. 0) 1700000000000 True
              browser ctx
            = (browser\<lparr> auth_token := None, refresh_token := None,
                         location_href := Some ''/signin'' \<rparr>, None)"
    using processing_run_outcomes
      [where server = "\<lambda>request. Inl err401" and ctx = ctx and browser = browser
         and error = err401 and random = "\<lambda>k. 0" and now = 1700000000000
         and documentReplaced = True, THEN conjunct2, THEN conjunct2] p3 s1
    by simp
  have a: "map_option (\<lambda>(c, route). (map fileName (processedResumes c),
                                 map candidateId (rejectionEmails c), currentJobId c, route))
         (snd (processResumesWithAPI (\<lambda>request. Inr response) (\<lambda>k. 0) 1700000000000 True
                 browser ctx))
         = Some ([''cv2.docx''], [''cand-2''], Some ''job-7'', ''/results'')"
    unfolding r1 by (simp add: response_def)
  have b: "map_option (\<lambda>(c, route). (map fileName (processedResumes c), route))
           (snd (processResumesWithAPI (\<lambda>request. Inl err0)
                   (\<lambda>k. 0) 1700000000000 True browser ctx))
         = Some ([''cv1.pdf'', ''cv2.docx''], ''/results'')"
    unfolding r2 [THEN conjunct1] using r2 [THEN conjunct2]
    by (simp add: ctx_def initialContext_def)
  have c: "processResumesWithAPI (\<lambda>request. Inl err401)
           (\<lambda>k. 0) 1700000000000 True browser ctx
         = (\<lparr> auth_token = None, refresh_token = None, location_href = Some ''/signin'' \<rparr>,
            None)"
    unfolding r3 by (simp add: browser_def)
  from a b c show ?thesis
    unfolding Let_def browser_def ctx_def response_def err0_def err401_def by simp
qed

end
